theory Spec2Isabelle
  imports Main
begin

section \<open>JavaScript values, objects and errors\<close>

text \<open>
  The service module (\<^verbatim>\<open>hashedPassword\<close>, \<^verbatim>\<open>comparePassword\<close>, \<^verbatim>\<open>createUser\<close>,
  \<^verbatim>\<open>authenticateUser\<close>) is embedded with its effects made explicit: every function
  returns its result (a thrown error is \<open>Inl\<close>, a returned value is \<open>Inr\<close>), the list
  of effects it performed in order, and, where it touches the store, the store afterwards.

  A thrown value is an \<^verbatim>\<open>Error\<close> object, given by its \<^verbatim>\<open>name\<close> and \<^verbatim>\<open>message\<close>.
\<close>

datatype js_error = JsError (err_name: string) (err_message: string)

text \<open>\<^verbatim>\<open>new Error(msg)\<close> for a string \<^verbatim>\<open>msg\<close>.\<close>

definition new_Error :: "string \<Rightarrow> js_error" where
  "new_Error msg = JsError ''Error'' msg"

text \<open>
  \<^verbatim>\<open>Error.prototype.toString\<close>, which \<^verbatim>\<open>String(err)\<close> and a template literal
  \<^verbatim>\<open>${err}\<close> call: the name alone when the message is empty, the message alone when
  the name is empty, and \<^verbatim>\<open>name + ": " + message\<close> otherwise.
\<close>

definition js_error_toString :: "js_error \<Rightarrow> string" where
  "js_error_toString e =
     (if err_name e = [] then err_message e
      else if err_message e = [] then err_name e
      else err_name e @ '': '' @ err_message e)"

text \<open>
  \<^verbatim>\<open>new Error(err)\<close> for a caught error \<^verbatim>\<open>err\<close>: the first argument of the constructor
  is the message, so the caught error is converted to a string; no \<^verbatim>\<open>cause\<close> is set.
\<close>

definition new_Error_of :: "js_error \<Rightarrow> js_error" where
  "new_Error_of err = new_Error (js_error_toString err)"

datatype js_value = JNum nat | JStr string | JDate nat | JUndefined

text \<open>An object is the list of its own properties, in insertion order.\<close>

type_synonym js_object = "(string \<times> js_value) list"

definition js_get :: "js_object \<Rightarrow> string \<Rightarrow> js_value" where
  "js_get obj k = (case map_of obj k of None \<Rightarrow> JUndefined | Some v \<Rightarrow> v)"

definition js_keys :: "js_object \<Rightarrow> string list" where
  "js_keys obj = map fst obj"

fun show_nat :: "nat \<Rightarrow> string" where
  "show_nat n =
     (if n < 10 then [char_of (48 + n)]
      else show_nat (n div 10) @ [char_of (48 + n mod 10)])"

declare show_nat.simps [simp del]

section \<open>The collaborators: hashing library, logger, store\<close>

text \<open>
  The effects a call performs, in the order the source performs them. The arguments
  are the ones the source passes.
\<close>

datatype effect =
    is_DbSelect: DbSelect string
  | is_BcryptHash: BcryptHash string nat
  | is_BcryptCompare: BcryptCompare string string
  | is_DbInsert: DbInsert string string string string
  | is_LogInfo: LogInfo string
  | is_LogError: LogError string

text \<open>
  The environment of one call. \<^verbatim>\<open>bcrypt.hash\<close> and \<^verbatim>\<open>bcrypt.compare\<close> belong to an
  external library and are parameters: each either throws or returns. A store
  operation can fail for reasons outside the table's contents (a lost connection, a
  constraint, a concurrent writer): \<open>select_fault\<close> and \<open>insert_fault\<close> are the error
  the driver throws in this call, if any. \<open>date_toString\<close> renders a timestamp.
\<close>

record env =
  bcrypt_hash :: "string \<Rightarrow> nat \<Rightarrow> js_error + string"
  bcrypt_compare :: "string \<Rightarrow> string \<Rightarrow> js_error + bool"
  select_fault :: "js_error option"
  insert_fault :: "js_error option"
  date_toString :: "nat \<Rightarrow> string"

text \<open>
  Modelled from the spec: the \<^verbatim>\<open>users\<close> table (\<^verbatim>\<open>#models/user.model.js\<close>) and the
  database handle (\<^verbatim>\<open>#config/database.js\<close>) are not among the sources. A row has the
  fields of the data model: \<^verbatim>\<open>id\<close> assigned by the store, \<^verbatim>\<open>name\<close>, \<^verbatim>\<open>email\<close> (unique,
  enforced by the store), \<^verbatim>\<open>password\<close>, \<^verbatim>\<open>role\<close>, and \<^verbatim>\<open>created_at\<close> /
  \<^verbatim>\<open>updated_at\<close> set by the store.
\<close>

record users_row =
  users_id :: nat
  users_name :: string
  users_email :: string
  users_password :: string
  users_role :: string
  users_created_at :: nat
  users_updated_at :: nat

text \<open>
  Modelled from the spec: the durable store behind the database handle, as far as the
  service uses it: the rows of the \<^verbatim>\<open>users\<close> table in insertion order, the next id
  the store will assign, and the store's clock.
\<close>

record db =
  users :: "users_row list"
  serial :: nat
  now :: nat

text \<open>The columns of the table, as the source refers to them (\<^verbatim>\<open>users.id\<close>, ...).\<close>

datatype users_column = Id | Name | Email | Password | Role | Created_at | Updated_at

fun column_value :: "users_row \<Rightarrow> users_column \<Rightarrow> js_value" where
  "column_value r Id = JNum (users_id r)"
| "column_value r Name = JStr (users_name r)"
| "column_value r Email = JStr (users_email r)"
| "column_value r Password = JStr (users_password r)"
| "column_value r Role = JStr (users_role r)"
| "column_value r Created_at = JDate (users_created_at r)"
| "column_value r Updated_at = JDate (users_updated_at r)"

text \<open>
  Modelled from the spec: \<^verbatim>\<open>db.select().from(users).where(eq(users.email, email)).limit(1)\<close>,
  the store's select-by-equality with a limit: the whole rows whose email is exactly
  the given string, at most one of them. It does not change the store.
\<close>

definition select_users_where_email :: "env \<Rightarrow> db \<Rightarrow> string \<Rightarrow> js_error + users_row list" where
  "select_users_where_email E d email_arg =
     (case select_fault E of
        Some err \<Rightarrow> Inl err
      | None \<Rightarrow> Inr (take 1 (filter (\<lambda>r. users_email r = email_arg) (users d))))"

text \<open>
  Modelled from the spec: the conflict error the store raises when an insert violates
  the uniqueness constraint on \<^verbatim>\<open>email\<close>.
\<close>

definition unique_violation :: js_error where
  "unique_violation =
     JsError ''NeonDbError'' ''duplicate key value violates unique constraint users_email_unique''"

text \<open>
  Modelled from the spec: \<^verbatim>\<open>db.insert(users).values({name, email, password, role})\<close>. The
  store assigns the id and both timestamps and appends the row, or throws and leaves
  the table as it was. The result is the list of inserted rows.
\<close>

definition insert_users ::
  "env \<Rightarrow> db \<Rightarrow> string \<Rightarrow> string \<Rightarrow> string \<Rightarrow> string \<Rightarrow> js_error + (users_row list \<times> db)" where
  "insert_users E d name_arg email_arg password_arg role_arg =
     (case insert_fault E of
        Some err \<Rightarrow> Inl err
      | None \<Rightarrow>
          if \<exists>r \<in> set (users d). users_email r = email_arg then Inl unique_violation
          else
            let row = \<lparr>users_id = serial d, users_name = name_arg, users_email = email_arg,
                       users_password = password_arg, users_role = role_arg,
                       users_created_at = now d, users_updated_at = now d\<rparr>
            in Inr ([row], d\<lparr>users := users d @ [row], serial := Suc (serial d)\<rparr>))"

text \<open>
  \<^verbatim>\<open>.returning({key: column, ...})\<close>: each inserted row as an object with exactly the
  listed keys.
\<close>

definition returning :: "(string \<times> users_column) list \<Rightarrow> users_row \<Rightarrow> js_object" where
  "returning sel r = map (\<lambda>(k, c). (k, column_value r c)) sel"

text \<open>The conversion a template literal applies to an interpolated value.\<close>

fun js_String :: "env \<Rightarrow> js_value \<Rightarrow> string" where
  "js_String E (JStr s) = s"
| "js_String E (JNum n) = show_nat n"
| "js_String E (JDate t) = date_toString E t"
| "js_String E JUndefined = ''undefined''"

section \<open>The service functions\<close>

text \<open>
  \<^verbatim>\<open>hashedPassword\<close>: \<^verbatim>\<open>bcrypt.hash(password, 10)\<close>; whatever the library throws is
  logged and replaced by a fixed error.
\<close>

definition hashedPassword :: "env \<Rightarrow> string \<Rightarrow> (js_error + string) \<times> effect list" where
  "hashedPassword E password_arg =
     (case bcrypt_hash E password_arg 10 of
        Inr h \<Rightarrow> (Inr h, [BcryptHash password_arg 10])
      | Inl e \<Rightarrow>
          (Inl (new_Error ''Error hashing the password''),
           [BcryptHash password_arg 10,
            LogError (''Error hashing the password '' @ js_error_toString e)]))"

text \<open>\<^verbatim>\<open>comparePassword\<close>: \<^verbatim>\<open>bcrypt.compare(password, hashedPassword)\<close>, wrapped alike.\<close>

definition comparePassword :: "env \<Rightarrow> string \<Rightarrow> string \<Rightarrow> (js_error + bool) \<times> effect list" where
  "comparePassword E password_arg hashed =
     (case bcrypt_compare E password_arg hashed of
        Inr b \<Rightarrow> (Inr b, [BcryptCompare password_arg hashed])
      | Inl e \<Rightarrow>
          (Inl (new_Error ''Error comparing passwords''),
           [BcryptCompare password_arg hashed,
            LogError (''Error comparing passwords: '' @ js_error_toString e)]))"

text \<open>
  The argument objects. \<^verbatim>\<open>authenticateUser\<close> destructures \<^verbatim>\<open>{email, password}\<close>;
  \<^verbatim>\<open>createUser\<close> destructures \<^verbatim>\<open>{name, email, password, role = 'user'}\<close>, where an
  omitted \<^verbatim>\<open>role\<close> is \<open>None\<close>.
\<close>

record credentials =
  email :: string
  password :: string

record new_user = credentials +
  name :: string
  role :: "string option"

text \<open>The keys and columns of the \<^verbatim>\<open>.returning({...})\<close> clause of \<^verbatim>\<open>createUser\<close>.\<close>

definition createUser_returning :: "(string \<times> users_column) list" where
  "createUser_returning =
     [(''id'', Id), (''name'', Name), (''email'', Email), (''role'', Role),
      (''created_at'', Created_at)]"

text \<open>
  The body of the \<^verbatim>\<open>try\<close> block of \<^verbatim>\<open>createUser\<close>. The array pattern
  \<^verbatim>\<open>const [newUser] = ...\<close> takes the first returned row; on an empty array
  \<^verbatim>\<open>newUser\<close> is undefined and reading \<^verbatim>\<open>newUser.email\<close> throws a TypeError.
\<close>

definition createUser_try ::
  "env \<Rightarrow> db \<Rightarrow> new_user \<Rightarrow> (js_error + js_object) \<times> effect list \<times> db" where
  "createUser_try E d inp =
     (let role_arg = (case role inp of None \<Rightarrow> ''user'' | Some r \<Rightarrow> r);
          t1 = [DbSelect (email inp)]
      in case select_users_where_email E d (email inp) of
           Inl e \<Rightarrow> (Inl e, t1, d)
         | Inr existingUser \<Rightarrow>
             if length existingUser > 0
             then (Inl (new_Error ''User with this email already exists''), t1, d)
             else
               (case hashedPassword E (password inp) of
                  (Inl e, th) \<Rightarrow> (Inl e, t1 @ th, d)
                | (Inr password_hash, th) \<Rightarrow>
                    (let t2 = t1 @ th @ [DbInsert (name inp) (email inp) password_hash role_arg]
                     in case insert_users E d (name inp) (email inp) password_hash role_arg of
                          Inl e \<Rightarrow> (Inl e, t2, d)
                        | Inr (inserted, d') \<Rightarrow>
                            (case map (returning createUser_returning) inserted of
                               [] \<Rightarrow>
                                 (Inl (JsError ''TypeError''
                                    ''Cannot read properties of undefined (reading 'email')''),
                                  t2, d')
                             | newUser # _ \<Rightarrow>
                                 (Inr newUser,
                                  t2 @ [LogInfo (''User '' @ js_String E (js_get newUser ''email'')
                                                 @ '' created successfully.'')],
                                  d')))))"

text \<open>
  \<^verbatim>\<open>createUser\<close>: the \<^verbatim>\<open>catch\<close> block logs the caught error and throws
  \<^verbatim>\<open>new Error(err)\<close>.
\<close>

definition createUser ::
  "env \<Rightarrow> db \<Rightarrow> new_user \<Rightarrow> (js_error + js_object) \<times> effect list \<times> db" where
  "createUser E d inp =
     (case createUser_try E d inp of
        (Inr newUser, t, d') \<Rightarrow> (Inr newUser, t, d')
      | (Inl err, t, d') \<Rightarrow>
          (Inl (new_Error_of err),
           t @ [LogError (''Error creating user: '' @ js_error_toString err)], d'))"

text \<open>
  The body of the \<^verbatim>\<open>try\<close> block of \<^verbatim>\<open>authenticateUser\<close>. \<^verbatim>\<open>const [user] = ...\<close> is
  the first selected row, or undefined when there is none.
\<close>

definition authenticateUser_try ::
  "env \<Rightarrow> db \<Rightarrow> credentials \<Rightarrow> (js_error + js_object) \<times> effect list" where
  "authenticateUser_try E d inp =
     (let t1 = [DbSelect (email inp)]
      in case select_users_where_email E d (email inp) of
           Inl e \<Rightarrow> (Inl e, t1)
         | Inr [] \<Rightarrow> (Inl (new_Error ''Invalid email or password''), t1)
         | Inr (user # _) \<Rightarrow>
             (case comparePassword E (password inp) (users_password user) of
                (Inl e, tc) \<Rightarrow> (Inl e, t1 @ tc)
              | (Inr isPasswordValid, tc) \<Rightarrow>
                  if \<not> isPasswordValid
                  then (Inl (new_Error ''Invalid email or password''), t1 @ tc)
                  else
                    (Inr [(''id'', JNum (users_id user)),
                          (''name'', JStr (users_name user)),
                          (''email'', JStr (users_email user)),
                          (''role'', JStr (users_role user)),
                          (''created_at'', JDate (users_created_at user))],
                     t1 @ tc @ [LogInfo (''User '' @ users_email user
                                         @ '' authenticated successfully.'')])))"

text \<open>
  \<^verbatim>\<open>authenticateUser\<close>: the \<^verbatim>\<open>catch\<close> block logs the message of the caught error
  and rethrows the error itself.
\<close>

definition authenticateUser ::
  "env \<Rightarrow> db \<Rightarrow> credentials \<Rightarrow> (js_error + js_object) \<times> effect list" where
  "authenticateUser E d inp =
     (case authenticateUser_try E d inp of
        (Inr user, t) \<Rightarrow> (Inr user, t)
      | (Inl err, t) \<Rightarrow>
          (Inl err, t @ [LogError (''Error authenticating user: '' @ err_message err)]))"

section \<open>Concrete runs\<close>

text \<open>
  Stand-ins for the hashing library, used only to run the service functions on concrete
  inputs: hashing prefixes the plaintext and comparing checks the prefix. The failing
  variants throw, as the library does on a malformed argument.
\<close>

definition stub_hash :: "string \<Rightarrow> nat \<Rightarrow> js_error + string" where
  "stub_hash p rounds = Inr (''hashed:'' @ p)"

definition stub_compare :: "string \<Rightarrow> string \<Rightarrow> js_error + bool" where
  "stub_compare p h = Inr (h = ''hashed:'' @ p)"

definition failing_compare :: "string \<Rightarrow> string \<Rightarrow> js_error + bool" where
  "failing_compare p h = Inl (JsError ''Error'' ''data and hash arguments required'')"

definition demo_env :: env where
  "demo_env = \<lparr>bcrypt_hash = stub_hash, bcrypt_compare = stub_compare,
     select_fault = None, insert_fault = None, date_toString = show_nat\<rparr>"

definition store_down :: js_error where
  "store_down = JsError ''NeonDbError'' ''connection terminated''"

definition empty_db :: db where
  "empty_db = \<lparr>users = [], serial = 1, now = 1000\<rparr>"

text \<open>The concrete scenario of the specification, and the table after it.\<close>

definition john :: new_user where
  "john = \<lparr>email = ''john@example.com'', password = ''securePass123'',
            name = ''John Doe'', role = None\<rparr>"

definition john_row :: users_row where
  "john_row = \<lparr>users_id = 1, users_name = ''John Doe'', users_email = ''john@example.com'',
      users_password = ''hashed:securePass123'', users_role = ''user'',
      users_created_at = 1000, users_updated_at = 1000\<rparr>"

definition db_john :: db where
  "db_john = \<lparr>users = [john_row], serial = 2, now = 1000\<rparr>"

text \<open>The same sign-up with an email that is neither trimmed nor lowercased.\<close>

definition foo :: new_user where
  "foo = \<lparr>email = ''Foo@Bar.com '', password = ''securePass123'',
           name = ''John Doe'', role = None\<rparr>"

definition foo_row :: users_row where
  "foo_row = \<lparr>users_id = 1, users_name = ''John Doe'', users_email = ''Foo@Bar.com '',
      users_password = ''hashed:securePass123'', users_role = ''user'',
      users_created_at = 1000, users_updated_at = 1000\<rparr>"

definition db_foo :: db where
  "db_foo = \<lparr>users = [foo_row], serial = 2, now = 1000\<rparr>"

definition admin_jane :: new_user where
  "admin_jane = \<lparr>email = ''jane@example.com'', password = ''s3cret!'',
           name = ''Jane Roe'', role = Some ''admin''\<rparr>"

section \<open>Case analysis of the service functions\<close>

lemmas run_defs =
  createUser_def createUser_try_def authenticateUser_def authenticateUser_try_def
  hashedPassword_def comparePassword_def select_users_where_email_def insert_users_def
  returning_def createUser_returning_def js_get_def js_keys_def
  new_Error_def new_Error_of_def js_error_toString_def Let_def
  demo_env_def stub_hash_def stub_compare_def failing_compare_def store_down_def
  empty_db_def john_def john_row_def db_john_def foo_def foo_row_def db_foo_def admin_jane_def

lemma take1_filter_empty:
  "take 1 (filter P xs) = [] \<longleftrightarrow> (\<forall>x \<in> set xs. \<not> P x)"
  by (induction xs) auto

lemma select_ok:
  "select_users_where_email E d e = Inr rows \<longleftrightarrow>
     select_fault E = None \<and> rows = take 1 (filter (\<lambda>r. users_email r = e) (users d))"
  by (auto simp: select_users_where_email_def split: option.splits)

lemma select_fails:
  "select_users_where_email E d e = Inl err \<longleftrightarrow> select_fault E = Some err"
  by (auto simp: select_users_where_email_def split: option.splits)

lemma hashedPassword_Inr:
  "hashedPassword E p = (Inr h, t) \<longleftrightarrow> bcrypt_hash E p 10 = Inr h \<and> t = [BcryptHash p 10]"
  by (auto simp: hashedPassword_def split: sum.splits)


lemma comparePassword_Inr:
  "comparePassword E p h = (Inr b, t) \<longleftrightarrow> bcrypt_compare E p h = Inr b \<and> t = [BcryptCompare p h]"
  by (auto simp: comparePassword_def split: sum.splits)

lemma comparePassword_Inl:
  "comparePassword E p h = (Inl e, t) \<longleftrightarrow>
     (\<exists>err. bcrypt_compare E p h = Inl err \<and> e = new_Error ''Error comparing passwords'' \<and>
        t = [BcryptCompare p h, LogError (''Error comparing passwords: '' @ js_error_toString err)])"
  by (auto simp: comparePassword_def split: sum.splits)

lemma insert_users_Inr:
  "insert_users E d n e p r = Inr (ins, d') \<longleftrightarrow>
     insert_fault E = None \<and> (\<forall>x \<in> set (users d). users_email x \<noteq> e) \<and>
     ins = [\<lparr>users_id = serial d, users_name = n, users_email = e, users_password = p,
             users_role = r, users_created_at = now d, users_updated_at = now d\<rparr>] \<and>
     d' = d\<lparr>users := users d @ ins, serial := Suc (serial d)\<rparr>"
  by (auto simp: insert_users_def Let_def split: option.splits)


lemma createUser_try_Inr:
  assumes "createUser_try E d inp = (Inr u, t, d')"
  shows "\<exists>h row. select_fault E = None \<and> insert_fault E = None \<and>
           (\<forall>x \<in> set (users d). users_email x \<noteq> email inp) \<and>
           bcrypt_hash E (password inp) 10 = Inr h \<and>
           row = \<lparr>users_id = serial d, users_name = name inp, users_email = email inp,
                  users_password = h,
                  users_role = (case role inp of None \<Rightarrow> ''user'' | Some r \<Rightarrow> r),
                  users_created_at = now d, users_updated_at = now d\<rparr> \<and>
           d' = d\<lparr>users := users d @ [row], serial := Suc (serial d)\<rparr> \<and>
           u = returning createUser_returning row \<and>
           t = [DbSelect (email inp), BcryptHash (password inp) 10,
                DbInsert (name inp) (email inp) h (users_role row),
                LogInfo (''User '' @ email inp @ '' created successfully.'')]"
  using assms
  by (auto simp: createUser_try_def Let_def select_ok select_fails take1_filter_empty
        hashedPassword_Inr insert_users_Inr js_get_def returning_def createUser_returning_def
      split: sum.splits if_splits prod.splits list.splits)


lemma createUser_Inr:
  "createUser E d inp = (Inr u, t, d') \<longleftrightarrow> createUser_try E d inp = (Inr u, t, d')"
  by (auto simp: createUser_def split: prod.splits sum.splits)

lemma createUser_fst_Inr:
  "fst (createUser E d inp) = Inr u \<longleftrightarrow> fst (createUser_try E d inp) = Inr u"
  by (auto simp: createUser_def split: prod.splits sum.splits)


lemma authenticateUser_fst:
  "fst (authenticateUser E d c) = fst (authenticateUser_try E d c)"
  by (auto simp: authenticateUser_def split: prod.splits sum.splits)

lemma keys_returning:
  "js_keys (returning createUser_returning row) = [''id'', ''name'', ''email'', ''role'', ''created_at'']"
  by (simp add: js_keys_def returning_def createUser_returning_def)

lemma get_returning:
  "js_get (returning createUser_returning row) ''email'' = JStr (users_email row)"
  "js_get (returning createUser_returning row) ''role'' = JStr (users_role row)"
  "js_get (returning createUser_returning row) ''id'' = JNum (users_id row)"
  by (simp_all add: js_get_def returning_def createUser_returning_def)

lemma authenticateUser_try_fault:
  assumes "select_fault E = Some err"
  shows "fst (authenticateUser_try E d c) = Inl err"
  using assms by (simp add: authenticateUser_try_def select_users_where_email_def)

lemma authenticateUser_try_none:
  assumes "select_fault E = None"
    and "filter (\<lambda>r. users_email r = email c) (users d) = []"
  shows "fst (authenticateUser_try E d c) = Inl (new_Error ''Invalid email or password'')"
  using assms by (simp add: authenticateUser_try_def select_users_where_email_def)

lemma authenticateUser_try_first:
  assumes "select_fault E = None"
    and "filter (\<lambda>r. users_email r = email c) (users d) = user # rest"
  shows "fst (authenticateUser_try E d c) =
           (case bcrypt_compare E (password c) (users_password user) of
              Inl err \<Rightarrow> Inl (new_Error ''Error comparing passwords'')
            | Inr b \<Rightarrow>
                if b then Inr [(''id'', JNum (users_id user)), (''name'', JStr (users_name user)),
                               (''email'', JStr (users_email user)), (''role'', JStr (users_role user)),
                               (''created_at'', JDate (users_created_at user))]
                else Inl (new_Error ''Invalid email or password''))"
  using assms
  by (simp add: authenticateUser_try_def select_users_where_email_def comparePassword_def
      split: sum.splits)

lemma filter_Cons_member:
  "filter P xs = x # rest \<Longrightarrow> x \<in> set xs \<and> P x"
  by (metis filter_eq_Cons_iff in_set_conv_decomp)

lemma authenticateUser_try_Inr:
  assumes "fst (authenticateUser_try E d c) = Inr v"
  shows "\<exists>user. user \<in> set (users d) \<and> users_email user = email c \<and> select_fault E = None \<and>
           bcrypt_compare E (password c) (users_password user) = Inr True \<and>
           v = [(''id'', JNum (users_id user)), (''name'', JStr (users_name user)),
                (''email'', JStr (users_email user)), (''role'', JStr (users_role user)),
                (''created_at'', JDate (users_created_at user))]"
proof (cases "select_fault E")
  case (Some err)
  then show ?thesis using assms by (simp add: authenticateUser_try_fault)
next
  case None
  show ?thesis
  proof (cases "filter (\<lambda>r. users_email r = email c) (users d)")
    case Nil
    then show ?thesis using assms None by (simp add: authenticateUser_try_none)
  next
    case (Cons user rest)
    from filter_Cons_member [OF Cons] have mem: "user \<in> set (users d)" "users_email user = email c"
      by simp_all
    from assms authenticateUser_try_first [OF None Cons]
    have "bcrypt_compare E (password c) (users_password user) = Inr True \<and>
          v = [(''id'', JNum (users_id user)), (''name'', JStr (users_name user)),
               (''email'', JStr (users_email user)), (''role'', JStr (users_role user)),
               (''created_at'', JDate (users_created_at user))]"
      by (simp split: sum.splits if_splits)
    with mem None show ?thesis by blast
  qed
qed

lemma authenticateUser_try_Inl:
  assumes "fst (authenticateUser_try E d c) = Inl e"
  shows "select_fault E = Some e \<or> e = new_Error ''Invalid email or password'' \<or>
         e = new_Error ''Error comparing passwords''"
proof (cases "select_fault E")
  case (Some err)
  then show ?thesis using assms by (simp add: authenticateUser_try_fault)
next
  case None
  show ?thesis
  proof (cases "filter (\<lambda>r. users_email r = email c) (users d)")
    case Nil
    then show ?thesis using assms None by (simp add: authenticateUser_try_none)
  next
    case (Cons user rest)
    from assms authenticateUser_try_first [OF None Cons]
    show ?thesis by (simp split: sum.splits if_splits)
  qed
qed

section \<open>Two concrete sign-ups\<close>

lemma createUser_john:
  "createUser demo_env empty_db john =
     (Inr [(''id'', JNum 1), (''name'', JStr ''John Doe''), (''email'', JStr ''john@example.com''),
           (''role'', JStr ''user''), (''created_at'', JDate 1000)],
      [DbSelect ''john@example.com'', BcryptHash ''securePass123'' 10,
       DbInsert ''John Doe'' ''john@example.com'' ''hashed:securePass123'' ''user'',
       LogInfo ''User john@example.com created successfully.''],
      db_john)"
  by (simp add: run_defs)

lemma createUser_foo:
  "createUser demo_env empty_db foo =
     (Inr [(''id'', JNum 1), (''name'', JStr ''John Doe''), (''email'', JStr ''Foo@Bar.com ''),
           (''role'', JStr ''user''), (''created_at'', JDate 1000)],
      [DbSelect ''Foo@Bar.com '', BcryptHash ''securePass123'' 10,
       DbInsert ''John Doe'' ''Foo@Bar.com '' ''hashed:securePass123'' ''user'',
       LogInfo ''User Foo@Bar.com  created successfully.''],
      db_foo)"
  by (simp add: run_defs)

section \<open>C1: the email is used as passed\<close>

text \<open>
  C1 claims that \<^verbatim>\<open>createUser\<close> itself trims and lowercases the email before the lookup
  and the insert, so that a sign-up with \<^verbatim>\<open>"Foo@Bar.com "\<close> and a later authentication
  with \<^verbatim>\<open>"foo@bar.com"\<close> meet the same account. The service functions do not touch the
  email: the sign-up stores \<^verbatim>\<open>"Foo@Bar.com "\<close> as it came, and the authentication with
  \<^verbatim>\<open>"foo@bar.com"\<close> finds no row and fails with \<^verbatim>\<open>Invalid email or password\<close>.
\<close>

theorem createUser_keeps_email_as_passed:
  "fst (createUser demo_env empty_db foo) =
     Inr [(''id'', JNum 1), (''name'', JStr ''John Doe''), (''email'', JStr ''Foo@Bar.com ''),
          (''role'', JStr ''user''), (''created_at'', JDate 1000)] \<and>
   map users_email (users (snd (snd (createUser demo_env empty_db foo)))) = [''Foo@Bar.com ''] \<and>
   fst (authenticateUser demo_env (snd (snd (createUser demo_env empty_db foo)))
          \<lparr>email = ''foo@bar.com'', password = ''securePass123''\<rparr>) =
     Inl (JsError ''Error'' ''Invalid email or password'')"
  by (simp add: createUser_foo) (simp add: run_defs)

text \<open>
  C1, amended: \<^verbatim>\<open>createUser\<close> uses the email argument exactly as passed, with no trimming
  or lowercasing, for the duplicate lookup (the first effect) and for the inserted and
  returned record. A later \<^verbatim>\<open>authenticateUser\<close> whose email is the identical string, and
  whose password the hashing library accepts against the stored hash, returns that
  account; one whose email is any other string never returns a record with the created
  email. Canonical form is left to the caller.
\<close>

theorem createUser_email_verbatim:
  assumes "createUser E d inp = (Inr u, t, d')"
  shows "\<exists>row rest. t = DbSelect (email inp) # rest \<and>
           users d' = users d @ [row] \<and> users_email row = email inp \<and>
           js_get u ''email'' = JStr (email inp) \<and>
           (\<forall>E' c. select_fault E' = None \<and> email c = email inp \<and>
                   bcrypt_compare E' (password c) (users_password row) = Inr True \<longrightarrow>
                (\<exists>v. fst (authenticateUser E' d' c) = Inr v \<and>
                     js_get v ''id'' = js_get u ''id'' \<and> js_get v ''email'' = JStr (email inp))) \<and>
           (\<forall>E' c v. email c \<noteq> email inp \<and> fst (authenticateUser E' d' c) = Inr v \<longrightarrow>
                js_get v ''email'' \<noteq> JStr (email inp))"
proof -
  from assms have "createUser_try E d inp = (Inr u, t, d')"
    by (simp add: createUser_Inr)
  from createUser_try_Inr [OF this] obtain h row where
    fresh: "\<forall>x \<in> set (users d). users_email x \<noteq> email inp"
    and row: "row = \<lparr>users_id = serial d, users_name = name inp, users_email = email inp,
                  users_password = h,
                  users_role = (case role inp of None \<Rightarrow> ''user'' | Some r \<Rightarrow> r),
                  users_created_at = now d, users_updated_at = now d\<rparr>"
    and d': "d' = d\<lparr>users := users d @ [row], serial := Suc (serial d)\<rparr>"
    and u: "u = returning createUser_returning row"
    and t: "t = [DbSelect (email inp), BcryptHash (password inp) 10,
                DbInsert (name inp) (email inp) h (users_role row),
                LogInfo (''User '' @ email inp @ '' created successfully.'')]"
    by blast
  have users: "users d' = users d @ [row]" using d' by simp
  have em: "users_email row = email inp" using row by simp
  have uem: "js_get u ''email'' = JStr (email inp)" using u em by (simp add: get_returning)
  have uid: "js_get u ''id'' = JNum (users_id row)" using u by (simp add: get_returning)
  have found: "filter (\<lambda>r. users_email r = email inp) (users d') = [row]"
    using fresh users em by (simp add: filter_empty_conv)
  have same: "\<exists>v. fst (authenticateUser E' d' c) = Inr v \<and>
                js_get v ''id'' = js_get u ''id'' \<and> js_get v ''email'' = JStr (email inp)"
    if "select_fault E' = None \<and> email c = email inp \<and>
        bcrypt_compare E' (password c) (users_password row) = Inr True" for E' c
  proof -
    from that found have f: "filter (\<lambda>r. users_email r = email c) (users d') = row # []"
      by simp
    from that have n: "select_fault E' = None" by simp
    show ?thesis
      using authenticateUser_try_first [OF n f] that uid em
      by (simp add: authenticateUser_fst js_get_def)
  qed
  have other: "js_get v ''email'' \<noteq> JStr (email inp)"
    if "email c \<noteq> email inp \<and> fst (authenticateUser E' d' c) = Inr v" for E' c v
  proof -
    from that have "fst (authenticateUser_try E' d' c) = Inr v"
      by (simp add: authenticateUser_fst)
    from authenticateUser_try_Inr [OF this] have "js_get v ''email'' = JStr (email c)"
      by (auto simp: js_get_def)
    with that show ?thesis by simp
  qed
  from t users em uem same other show ?thesis by blast
qed

theorem createUser_email_verbatim_witness:
  "createUser demo_env empty_db foo =
     (Inr [(''id'', JNum 1), (''name'', JStr ''John Doe''), (''email'', JStr ''Foo@Bar.com ''),
           (''role'', JStr ''user''), (''created_at'', JDate 1000)],
      [DbSelect ''Foo@Bar.com '', BcryptHash ''securePass123'' 10,
       DbInsert ''John Doe'' ''Foo@Bar.com '' ''hashed:securePass123'' ''user'',
       LogInfo ''User Foo@Bar.com  created successfully.''],
      db_foo) \<and>
   fst (authenticateUser demo_env db_foo
          \<lparr>email = ''Foo@Bar.com '', password = ''securePass123''\<rparr>) =
     Inr [(''id'', JNum 1), (''name'', JStr ''John Doe''), (''email'', JStr ''Foo@Bar.com ''),
          (''role'', JStr ''user''), (''created_at'', JDate 1000)]"
proof -
  let ?c = "\<lparr>email = ''Foo@Bar.com '', password = ''securePass123''\<rparr>"
  from createUser_email_verbatim [OF createUser_foo] obtain row where
    r: "users db_foo = users empty_db @ [row]"
    and a: "\<forall>E' c. select_fault E' = None \<and> email c = email foo \<and>
                   bcrypt_compare E' (password c) (users_password row) = Inr True \<longrightarrow>
                (\<exists>v. fst (authenticateUser E' db_foo c) = Inr v \<and>
                     js_get v ''id'' = JNum 1 \<and> js_get v ''email'' = JStr (email foo))"
    by (auto simp: js_get_def)
  from r have "row = foo_row" by (simp add: db_foo_def empty_db_def)
  then have "select_fault demo_env = None \<and> email ?c = email foo \<and>
      bcrypt_compare demo_env (password ?c) (users_password row) = Inr True"
    by (simp add: run_defs)
  with a obtain v where "fst (authenticateUser demo_env db_foo ?c) = Inr v" by blast
  moreover have "fst (authenticateUser_try demo_env db_foo ?c) = Inr v \<Longrightarrow> v =
     [(''id'', JNum 1), (''name'', JStr ''John Doe''), (''email'', JStr ''Foo@Bar.com ''),
          (''role'', JStr ''user''), (''created_at'', JDate 1000)]"
    by (auto dest!: authenticateUser_try_Inr simp: run_defs)
  ultimately show ?thesis using createUser_foo by (simp add: authenticateUser_fst)
qed

section \<open>C2: what a failing sign-up delivers\<close>




section \<open>C3: what a failing authentication delivers\<close>

text \<open>
  C3 claims that \<^verbatim>\<open>authenticateUser\<close> fails with \<^verbatim>\<open>InvalidCredentials\<close> only. Its
  \<^verbatim>\<open>catch\<close> block rethrows whatever it caught: when the lookup fails with the store's
  error, the caller receives that error itself.
\<close>

theorem authenticateUser_rethrows_store_error:
  "fst (authenticateUser (demo_env\<lparr>select_fault := Some store_down\<rparr>) db_john
          \<lparr>email = ''john@example.com'', password = ''securePass123''\<rparr>) =
     Inl (JsError ''NeonDbError'' ''connection terminated'')"
  by (simp add: run_defs)

text \<open>
  C3, amended: \<^verbatim>\<open>authenticateUser\<close> either returns a user record or fails with one of
  three errors, each rethrown unchanged: the \<^verbatim>\<open>Error\<close> with message
  \<^verbatim>\<open>Invalid email or password\<close>, the \<^verbatim>\<open>Error\<close> with message
  \<^verbatim>\<open>Error comparing passwords\<close> that \<^verbatim>\<open>comparePassword\<close> throws when the hashing
  library fails, or the store's own error when the lookup fails.
\<close>

theorem authenticateUser_failures:
  assumes "fst (authenticateUser E d c) = Inl e"
  shows "e = new_Error ''Invalid email or password'' \<or>
         e = new_Error ''Error comparing passwords'' \<or>
         select_fault E = Some e"
  using authenticateUser_try_Inl [of E d c e] assms by (auto simp: authenticateUser_fst)

theorem authenticateUser_failures_witness:
  "fst (authenticateUser (demo_env\<lparr>bcrypt_compare := failing_compare\<rparr>) db_john
          \<lparr>email = ''john@example.com'', password = ''securePass123''\<rparr>) =
     Inl (JsError ''Error'' ''Error comparing passwords'') \<and>
   (JsError ''Error'' ''Error comparing passwords'' = new_Error ''Invalid email or password'' \<or>
    JsError ''Error'' ''Error comparing passwords'' = new_Error ''Error comparing passwords'' \<or>
    select_fault (demo_env\<lparr>bcrypt_compare := failing_compare\<rparr>) =
      Some (JsError ''Error'' ''Error comparing passwords''))"
proof -
  have h: "fst (authenticateUser (demo_env\<lparr>bcrypt_compare := failing_compare\<rparr>) db_john
          \<lparr>email = ''john@example.com'', password = ''securePass123''\<rparr>) =
     Inl (JsError ''Error'' ''Error comparing passwords'')"
    by (simp add: run_defs)
  from h authenticateUser_failures [OF h] show ?thesis by (rule conjI)
qed

section \<open>C4: unknown email and wrong password fail alike\<close>

text \<open>
  C4: an authentication whose email matches no stored record and an authentication whose
  email is stored but whose password the hashing library rejects both fail, with the
  identical error, \<^verbatim>\<open>Error\<close> with message \<^verbatim>\<open>Invalid email or password\<close>. The two calls
  may run against different tables and environments; in both the lookup itself succeeds.
\<close>

theorem authenticateUser_same_failure:
  assumes "select_fault E1 = None" and "select_fault E2 = None"
    and "\<forall>r \<in> set (users d1). users_email r \<noteq> email c1"
    and "\<exists>r \<in> set (users d2). users_email r = email c2"
    and "\<forall>r \<in> set (users d2). users_email r = email c2 \<longrightarrow>
           bcrypt_compare E2 (password c2) (users_password r) = Inr False"
  shows "fst (authenticateUser E1 d1 c1) = Inl (new_Error ''Invalid email or password'') \<and>
         fst (authenticateUser E2 d2 c2) = Inl (new_Error ''Invalid email or password'')"
proof -
  have one: "fst (authenticateUser E1 d1 c1) = Inl (new_Error ''Invalid email or password'')"
    using assms(1,3) by (simp add: authenticateUser_fst authenticateUser_try_none filter_empty_conv)
  obtain user rest where f: "filter (\<lambda>r. users_email r = email c2) (users d2) = user # rest"
    using assms(4) by (cases "filter (\<lambda>r. users_email r = email c2) (users d2)")
      (auto simp: filter_empty_conv)
  then have "user \<in> set (filter (\<lambda>r. users_email r = email c2) (users d2))" by simp
  then have "bcrypt_compare E2 (password c2) (users_password user) = Inr False"
    using assms(5) by simp
  then have two: "fst (authenticateUser E2 d2 c2) = Inl (new_Error ''Invalid email or password'')"
    using authenticateUser_try_first [OF assms(2) f] by (simp add: authenticateUser_fst)
  from one two show ?thesis by simp
qed

theorem authenticateUser_same_failure_witness:
  "fst (authenticateUser demo_env db_john
          \<lparr>email = ''nobody@example.com'', password = ''securePass123''\<rparr>) =
     Inl (new_Error ''Invalid email or password'') \<and>
   fst (authenticateUser demo_env db_john
          \<lparr>email = ''john@example.com'', password = ''wrong''\<rparr>) =
     Inl (new_Error ''Invalid email or password'')"
proof (rule authenticateUser_same_failure)
  show "select_fault demo_env = None" by (simp add: demo_env_def)
  show "select_fault demo_env = None" by (simp add: demo_env_def)
  show "\<forall>r \<in> set (users db_john).
          users_email r \<noteq> email \<lparr>email = ''nobody@example.com'', password = ''securePass123''\<rparr>"
    by (simp add: db_john_def john_row_def)
  show "\<exists>r \<in> set (users db_john).
          users_email r = email \<lparr>email = ''john@example.com'', password = ''wrong''\<rparr>"
    by (simp add: db_john_def john_row_def)
  show "\<forall>r \<in> set (users db_john).
          users_email r = email \<lparr>email = ''john@example.com'', password = ''wrong''\<rparr> \<longrightarrow>
          bcrypt_compare demo_env (password \<lparr>email = ''john@example.com'', password = ''wrong''\<rparr>)
            (users_password r) = Inr False"
    by (simp add: db_john_def john_row_def demo_env_def stub_compare_def)
qed

section \<open>C5: a duplicate is rejected before hashing and inserting\<close>

text \<open>
  C5: when a record with the given email is already in the store, \<^verbatim>\<open>createUser\<close> fails;
  among the effects of the call there is neither a call of the hashing library nor an
  insert, and the store after the call is the store before it.
\<close>

theorem createUser_duplicate_short_circuit:
  assumes "r \<in> set (users d)" and "users_email r = email inp"
  shows "\<exists>e t. createUser E d inp = (Inl e, t, d) \<and>
           (\<forall>ev \<in> set t. \<not> is_BcryptHash ev \<and> \<not> is_DbInsert ev)"
proof (cases "select_fault E")
  case (Some err)
  then have "createUser_try E d inp = (Inl err, [DbSelect (email inp)], d)"
    by (simp add: createUser_try_def select_users_where_email_def)
  then have "createUser E d inp =
      (Inl (new_Error_of err),
       [DbSelect (email inp), LogError (''Error creating user: '' @ js_error_toString err)], d)"
    by (simp add: createUser_def)
  then show ?thesis by simp
next
  case None
  have "filter (\<lambda>r. users_email r = email inp) (users d) \<noteq> []"
    using assms by (auto simp: filter_empty_conv)
  then obtain x xs where "filter (\<lambda>r. users_email r = email inp) (users d) = x # xs"
    by (cases "filter (\<lambda>r. users_email r = email inp) (users d)") auto
  with None have "createUser_try E d inp =
      (Inl (new_Error ''User with this email already exists''), [DbSelect (email inp)], d)"
    by (simp add: createUser_try_def select_users_where_email_def)
  then have "createUser E d inp =
      (Inl (new_Error_of (new_Error ''User with this email already exists'')),
       [DbSelect (email inp),
        LogError (''Error creating user: '' @
          js_error_toString (new_Error ''User with this email already exists''))], d)"
    by (simp add: createUser_def)
  then show ?thesis by simp
qed

theorem createUser_duplicate_short_circuit_witness:
  "john_row \<in> set (users db_john) \<and> users_email john_row = email john \<and>
   (\<exists>e t. createUser demo_env db_john john = (Inl e, t, db_john) \<and>
           (\<forall>ev \<in> set t. \<not> is_BcryptHash ev \<and> \<not> is_DbInsert ev))"
proof -
  have h1: "john_row \<in> set (users db_john)" by (simp add: db_john_def)
  have h2: "users_email john_row = email john" by (simp add: john_row_def john_def)
  from h1 h2 createUser_duplicate_short_circuit [OF h1 h2, of demo_env] show ?thesis by blast
qed

section \<open>C6: no returned record has a password field\<close>

text \<open>
  C6: the record a successful \<^verbatim>\<open>createUser\<close> returns and the record a successful
  \<^verbatim>\<open>authenticateUser\<close> returns have no \<^verbatim>\<open>password\<close> field.
\<close>

theorem returned_records_have_no_password:
  "(fst (createUser E d inp) = Inr u \<longrightarrow> ''password'' \<notin> set (js_keys u)) \<and>
   (fst (authenticateUser E' d' c) = Inr v \<longrightarrow> ''password'' \<notin> set (js_keys v))"
proof (intro conjI impI)
  assume "fst (createUser E d inp) = Inr u"
  then obtain t d2 where "createUser_try E d inp = (Inr u, t, d2)"
    by (metis createUser_fst_Inr prod.collapse)
  from createUser_try_Inr [OF this] obtain row where "u = returning createUser_returning row"
    by blast
  then show "''password'' \<notin> set (js_keys u)"
    by (simp add: keys_returning)
next
  assume "fst (authenticateUser E' d' c) = Inr v"
  then show "''password'' \<notin> set (js_keys v)"
    using authenticateUser_try_Inr [of E' d' c v]
    by (auto simp: authenticateUser_fst js_keys_def)
qed

theorem returned_records_have_no_password_witness:
  "fst (createUser demo_env empty_db john) =
     Inr [(''id'', JNum 1), (''name'', JStr ''John Doe''), (''email'', JStr ''john@example.com''),
          (''role'', JStr ''user''), (''created_at'', JDate 1000)] \<and>
   fst (authenticateUser demo_env db_john
          \<lparr>email = ''john@example.com'', password = ''securePass123''\<rparr>) =
     Inr [(''id'', JNum 1), (''name'', JStr ''John Doe''), (''email'', JStr ''john@example.com''),
          (''role'', JStr ''user''), (''created_at'', JDate 1000)] \<and>
   ''password'' \<notin> set (js_keys
     [(''id'', JNum 1), (''name'', JStr ''John Doe''), (''email'', JStr ''john@example.com''),
      (''role'', JStr ''user''), (''created_at'', JDate 1000)])"
proof -
  let ?u = "[(''id'', JNum 1), (''name'', JStr ''John Doe''), (''email'', JStr ''john@example.com''),
          (''role'', JStr ''user''), (''created_at'', JDate 1000)]"
  have h1: "fst (createUser demo_env empty_db john) = Inr ?u"
    by (simp add: createUser_john)
  have h2: "fst (authenticateUser demo_env db_john
          \<lparr>email = ''john@example.com'', password = ''securePass123''\<rparr>) = Inr ?u"
    by (simp add: run_defs)
  from returned_records_have_no_password
         [of demo_env empty_db john ?u demo_env db_john
             "\<lparr>email = ''john@example.com'', password = ''securePass123''\<rparr>" ?u] h1 h2
  show ?thesis by blast
qed

section \<open>C8: the role\<close>

text \<open>
  C8: a successful \<^verbatim>\<open>createUser\<close> appends one record to the store; when the role
  argument is omitted, that record and the returned one have role \<^verbatim>\<open>user\<close>, and when
  the role argument is \<^verbatim>\<open>admin\<close> they have role \<^verbatim>\<open>admin\<close>.
\<close>

theorem createUser_role_default:
  assumes "createUser E d inp = (Inr u, t, d')"
  shows "\<exists>row. users d' = users d @ [row] \<and>
           (role inp = None \<longrightarrow> users_role row = ''user'' \<and> js_get u ''role'' = JStr ''user'') \<and>
           (role inp = Some ''admin'' \<longrightarrow> users_role row = ''admin'' \<and> js_get u ''role'' = JStr ''admin'')"
proof -
  from assms have "createUser_try E d inp = (Inr u, t, d')"
    by (simp add: createUser_Inr)
  from createUser_try_Inr [OF this] obtain h row where
    row: "row = \<lparr>users_id = serial d, users_name = name inp, users_email = email inp,
                  users_password = h,
                  users_role = (case role inp of None \<Rightarrow> ''user'' | Some r \<Rightarrow> r),
                  users_created_at = now d, users_updated_at = now d\<rparr>"
    and d': "d' = d\<lparr>users := users d @ [row], serial := Suc (serial d)\<rparr>"
    and u: "u = returning createUser_returning row"
    by blast
  have "users d' = users d @ [row]" using d' by simp
  moreover have "role inp = None \<longrightarrow> users_role row = ''user''" using row by simp
  moreover have "role inp = Some ''admin'' \<longrightarrow> users_role row = ''admin''" using row by simp
  moreover have "js_get u ''role'' = JStr (users_role row)" using u by (simp add: get_returning)
  ultimately show ?thesis by auto
qed

theorem createUser_role_default_witness:
  "(\<exists>u t d'. createUser demo_env empty_db john = (Inr u, t, d') \<and> role john = None \<and>
      js_get u ''role'' = JStr ''user'' \<and> map users_role (users d') = [''user'']) \<and>
   (\<exists>u t d'. createUser demo_env db_john admin_jane = (Inr u, t, d') \<and>
      role admin_jane = Some ''admin'' \<and>
      js_get u ''role'' = JStr ''admin'' \<and> map users_role (users d') = [''user'', ''admin''])"
proof -
  obtain u t d' where c1: "createUser demo_env empty_db john = (Inr u, t, d')"
    using createUser_john by blast
  have n: "role john = None" by (simp add: john_def)
  from createUser_role_default [OF c1] n obtain row where
    "users d' = users empty_db @ [row]" "users_role row = ''user''" "js_get u ''role'' = JStr ''user''"
    by blast
  then have one: "js_get u ''role'' = JStr ''user'' \<and> map users_role (users d') = [''user'']"
    by (simp add: empty_db_def)
  have "\<exists>u t d'. createUser demo_env db_john admin_jane = (Inr u, t, d')"
    by (simp add: run_defs)
  then obtain u2 t2 d2 where c2: "createUser demo_env db_john admin_jane = (Inr u2, t2, d2)"
    by blast
  have a: "role admin_jane = Some ''admin''" by (simp add: admin_jane_def)
  from createUser_role_default [OF c2] a obtain row2 where
    "users d2 = users db_john @ [row2]" "users_role row2 = ''admin''"
    "js_get u2 ''role'' = JStr ''admin''"
    by blast
  then have two: "js_get u2 ''role'' = JStr ''admin'' \<and>
      map users_role (users d2) = [''user'', ''admin'']"
    by (simp add: db_john_def john_row_def)
  from c1 n one c2 a two show ?thesis by simp
qed

section \<open>C9: the catch block of createUser\<close>



section \<open>C10: the fields of the authenticated record\<close>

text \<open>
  C10: the record a successful \<^verbatim>\<open>authenticateUser\<close> returns has exactly the fields
  \<^verbatim>\<open>id\<close>, \<^verbatim>\<open>name\<close>, \<^verbatim>\<open>email\<close>, \<^verbatim>\<open>role\<close> and \<^verbatim>\<open>created_at\<close>; the stored
  \<^verbatim>\<open>updated_at\<close> is left out as the \<^verbatim>\<open>password\<close> is.
\<close>

theorem authenticateUser_returned_fields:
  assumes "fst (authenticateUser E d c) = Inr v"
  shows "js_keys v = [''id'', ''name'', ''email'', ''role'', ''created_at''] \<and>
         ''updated_at'' \<notin> set (js_keys v) \<and> ''password'' \<notin> set (js_keys v)"
  using authenticateUser_try_Inr [of E d c v] assms
  by (auto simp: authenticateUser_fst js_keys_def)

theorem authenticateUser_returned_fields_witness:
  "fst (authenticateUser demo_env db_john
          \<lparr>email = ''john@example.com'', password = ''securePass123''\<rparr>) =
     Inr [(''id'', JNum 1), (''name'', JStr ''John Doe''), (''email'', JStr ''john@example.com''),
          (''role'', JStr ''user''), (''created_at'', JDate 1000)] \<and>
   js_keys [(''id'', JNum 1), (''name'', JStr ''John Doe''), (''email'', JStr ''john@example.com''),
          (''role'', JStr ''user''), (''created_at'', JDate 1000)] =
     [''id'', ''name'', ''email'', ''role'', ''created_at''] \<and>
   ''updated_at'' \<notin> set (js_keys
     [(''id'', JNum 1), (''name'', JStr ''John Doe''), (''email'', JStr ''john@example.com''),
      (''role'', JStr ''user''), (''created_at'', JDate 1000)]) \<and>
   ''password'' \<notin> set (js_keys
     [(''id'', JNum 1), (''name'', JStr ''John Doe''), (''email'', JStr ''john@example.com''),
      (''role'', JStr ''user''), (''created_at'', JDate 1000)])"
proof -
  have h: "fst (authenticateUser demo_env db_john
          \<lparr>email = ''john@example.com'', password = ''securePass123''\<rparr>) =
     Inr [(''id'', JNum 1), (''name'', JStr ''John Doe''), (''email'', JStr ''john@example.com''),
          (''role'', JStr ''user''), (''created_at'', JDate 1000)]"
    by (simp add: run_defs)
  from h authenticateUser_returned_fields [OF h] show ?thesis by (rule conjI)
qed

end
